theory Spec2Isabelle
  imports Main "HOL-Library.AList"
begin

section \<open>Python values\<close>

text \<open>
  The module \<^verbatim>\<open>route53/resource_record_set.py\<close> is dynamically typed: the snapshot
  dictionary \<^verbatim>\<open>_initial_vals\<close> holds values of several types, \<^verbatim>\<open>getattr\<close> returns any of
  them, and \<^verbatim>\<open>is_alias_record_set\<close> returns whatever \<^verbatim>\<open>or\<close> selects. \<open>pyval\<close> is the
  universe of the values that the documented argument types produce: \<^verbatim>\<open>None\<close>, booleans,
  integers, strings, lists of strings (the resource records) and references to a
  \<^verbatim>\<open>Route53Connection\<close> object (compared by identity).
\<close>

type_synonym conn_ref = nat

datatype pyval =
    PNone
  | PBool bool
  | PInt int
  | PStr string
  | PList "string list"
  | PConn conn_ref

text \<open>The exceptions that the code of the module can raise by itself.\<close>

datatype py_error = ValueError | AttributeError

text \<open>Truth value testing, as \<^verbatim>\<open>if x\<close> and \<^verbatim>\<open>x or y\<close> do it.\<close>

fun truthy :: "pyval \<Rightarrow> bool" where
  "truthy PNone = False"
| "truthy (PBool b) = b"
| "truthy (PInt n) = (n \<noteq> 0)"
| "truthy (PStr s) = (s \<noteq> [])"
| "truthy (PList xs) = (xs \<noteq> [])"
| "truthy (PConn c) = True"

text \<open>\<^verbatim>\<open>x or y\<close> evaluates to \<^verbatim>\<open>x\<close> itself when it is true and to \<^verbatim>\<open>y\<close> otherwise; it
  never converts its result to a boolean.\<close>

definition py_or :: "pyval \<Rightarrow> pyval \<Rightarrow> pyval" where
  "py_or x y = (if truthy x then x else y)"

text \<open>\<^verbatim>\<open>x != y\<close>: values of different types differ, except that a boolean compares as the
  integer 0 or 1.\<close>

fun as_number :: "pyval \<Rightarrow> pyval" where
  "as_number (PBool b) = PInt (if b then 1 else 0)"
| "as_number v = v"

definition py_ne :: "pyval \<Rightarrow> pyval \<Rightarrow> bool" where
  "py_ne x y = (as_number x \<noteq> as_number y)"

text \<open>Typed fields seen as Python values.\<close>

fun of_conn :: "conn_ref option \<Rightarrow> pyval" where
  "of_conn None = PNone"
| "of_conn (Some c) = PConn c"

fun of_int :: "int option \<Rightarrow> pyval" where
  "of_int None = PNone"
| "of_int (Some n) = PInt n"

fun of_str :: "string option \<Rightarrow> pyval" where
  "of_str None = PNone"
| "of_str (Some s) = PStr s"

section \<open>The classes\<close>

text \<open>The base class and its ten subclasses; a subclass only overrides the class
  attribute \<^verbatim>\<open>rrset_type\<close> (and, for A records, the constructor and
  \<^verbatim>\<open>is_alias_record_set\<close>).\<close>

datatype rrset_class =
    ResourceRecordSet
  | AResourceRecordSet
  | AAAAResourceRecordSet
  | CNAMEResourceRecordSet
  | MXResourceRecordSet
  | NSResourceRecordSet
  | PTRResourceRecordSet
  | SOAResourceRecordSet
  | SPFResourceRecordSet
  | SRVResourceRecordSet
  | TXTResourceRecordSet

text \<open>\<^verbatim>\<open>cls.__name__\<close>\<close>

fun class_name :: "rrset_class \<Rightarrow> string" where
  "class_name ResourceRecordSet = ''ResourceRecordSet''"
| "class_name AResourceRecordSet = ''AResourceRecordSet''"
| "class_name AAAAResourceRecordSet = ''AAAAResourceRecordSet''"
| "class_name CNAMEResourceRecordSet = ''CNAMEResourceRecordSet''"
| "class_name MXResourceRecordSet = ''MXResourceRecordSet''"
| "class_name NSResourceRecordSet = ''NSResourceRecordSet''"
| "class_name PTRResourceRecordSet = ''PTRResourceRecordSet''"
| "class_name SOAResourceRecordSet = ''SOAResourceRecordSet''"
| "class_name SPFResourceRecordSet = ''SPFResourceRecordSet''"
| "class_name SRVResourceRecordSet = ''SRVResourceRecordSet''"
| "class_name TXTResourceRecordSet = ''TXTResourceRecordSet''"

text \<open>The class attribute \<^verbatim>\<open>rrset_type\<close>.\<close>

fun rrset_type :: "rrset_class \<Rightarrow> string option" where
  "rrset_type ResourceRecordSet = None"
| "rrset_type AResourceRecordSet = Some ''A''"
| "rrset_type AAAAResourceRecordSet = Some ''AAAA''"
| "rrset_type CNAMEResourceRecordSet = Some ''CNAME''"
| "rrset_type MXResourceRecordSet = Some ''MX''"
| "rrset_type NSResourceRecordSet = Some ''NS''"
| "rrset_type PTRResourceRecordSet = Some ''PTR''"
| "rrset_type SOAResourceRecordSet = Some ''SOA''"
| "rrset_type SPFResourceRecordSet = Some ''SPF''"
| "rrset_type SRVResourceRecordSet = Some ''SRV''"
| "rrset_type TXTResourceRecordSet = Some ''TXT''"

section \<open>Instances\<close>

text \<open>
  An instance, with the fields typed as the constructors' docstrings give them:
  \<^verbatim>\<open>connection\<close> a connection object (or \<^verbatim>\<open>None\<close>, which nothing in the code excludes),
  \<^verbatim>\<open>zone_id\<close> and \<^verbatim>\<open>name\<close> strings, \<^verbatim>\<open>ttl\<close> an integer or \<^verbatim>\<open>None\<close>, \<^verbatim>\<open>records\<close> a list of
  strings, the two alias keywords a string or \<^verbatim>\<open>None\<close>. \<open>cls\<close> is the instance's
  \<^verbatim>\<open>__class__\<close>. \<open>initial_vals\<close> is the dictionary \<^verbatim>\<open>_initial_vals\<close>, kept as an
  association list in insertion order, which is the order in which a dictionary is
  iterated (older interpreters iterate in an arbitrary order; \<open>is_modified_loop_any_order\<close>
  below does not depend on the order). The two alias fields are attributes of instances
  of \<open>AResourceRecordSet\<close> only: for the other classes they are carried as \<open>None\<close> and no
  method reads them.
\<close>

record rrset =
  cls :: rrset_class
  connection :: "conn_ref option"
  zone_id :: string
  name :: string
  ttl :: "int option"
  records :: "string list"
  initial_vals :: "(string \<times> pyval) list"
  alias_hosted_zone_id :: "string option"
  alias_dns_name :: "string option"

text \<open>
  \<^verbatim>\<open>ResourceRecordSet.__init__\<close>, run for an instance of class \<open>c\<close>.
  \<^verbatim>\<open>self.ttl = int(ttl) if ttl else None\<close>: an integer is true when it is not zero, and
  \<^verbatim>\<open>int\<close> of an integer is that integer. The snapshot takes the arguments as they were
  passed.
\<close>

definition ResourceRecordSet_init ::
  "rrset_class \<Rightarrow> conn_ref option \<Rightarrow> string \<Rightarrow> string \<Rightarrow> int option \<Rightarrow> string list \<Rightarrow> rrset"
where
  "ResourceRecordSet_init c connection' zone_id' name' ttl' records' =
     \<lparr> cls = c,
       connection = connection',
       zone_id = zone_id',
       name = name',
       ttl = (if truthy (of_int ttl') then ttl' else None),
       records = records',
       initial_vals =
         [(''connection'', of_conn connection'),
          (''zone_id'', PStr zone_id'),
          (''name'', PStr name'),
          (''ttl'', of_int ttl'),
          (''records'', PList records')],
       alias_hosted_zone_id = None,
       alias_dns_name = None \<rparr>"

text \<open>
  \<^verbatim>\<open>AResourceRecordSet.__init__\<close>: the base constructor, then the two alias fields, then
  \<^verbatim>\<open>dict.update\<close> on the snapshot with the two alias keywords.
\<close>

definition AResourceRecordSet_init ::
  "string option \<Rightarrow> string option \<Rightarrow>
   conn_ref option \<Rightarrow> string \<Rightarrow> string \<Rightarrow> int option \<Rightarrow> string list \<Rightarrow> rrset"
where
  "AResourceRecordSet_init alias_hosted_zone_id' alias_dns_name'
       connection' zone_id' name' ttl' records' =
     (let self = ResourceRecordSet_init AResourceRecordSet
                   connection' zone_id' name' ttl' records';
          self = self\<lparr>alias_hosted_zone_id := alias_hosted_zone_id'\<rparr>;
          self = self\<lparr>alias_dns_name := alias_dns_name'\<rparr>
      in self\<lparr>initial_vals :=
           AList.update ''alias_dns_name'' (of_str alias_dns_name')
             (AList.update ''alias_hosted_zone_id'' (of_str alias_hosted_zone_id')
                (initial_vals self))\<rparr>)"

section \<open>Methods\<close>

text \<open>\<^verbatim>\<open>__str__\<close>: \<^verbatim>\<open>'<%s: %s>' % (self.__class__.__name__, self.name)\<close>; \<^verbatim>\<open>%s\<close> of a
  string is the string.\<close>

definition str_rrset :: "rrset \<Rightarrow> string" where
  "str_rrset self = ''<'' @ class_name (cls self) @ '': '' @ name self @ ''>''"

text \<open>
  \<^verbatim>\<open>getattr(self, key)\<close> on the data attributes of an instance. The remaining attributes
  of an instance (its methods, the snapshot dictionary itself, the attributes every
  object has) are not values of \<open>pyval\<close>; every one of them has a name of more than one
  character, and \<^verbatim>\<open>is_modified\<close> below only ever asks for names of one character.
\<close>

definition getattr :: "rrset \<Rightarrow> string \<Rightarrow> py_error + pyval" where
  "getattr self key =
     (if key = ''connection'' then Inr (of_conn (connection self))
      else if key = ''zone_id'' then Inr (PStr (zone_id self))
      else if key = ''name'' then Inr (PStr (name self))
      else if key = ''ttl'' then Inr (of_int (ttl self))
      else if key = ''records'' then Inr (PList (records self))
      else if key = ''rrset_type'' then Inr (of_str (rrset_type (cls self)))
      else if cls self = AResourceRecordSet \<and> key = ''alias_hosted_zone_id''
        then Inr (of_str (alias_hosted_zone_id self))
      else if cls self = AResourceRecordSet \<and> key = ''alias_dns_name''
        then Inr (of_str (alias_dns_name self))
      else Inl AttributeError)"

text \<open>
  \<^verbatim>\<open>is_modified\<close>. The loop is \<^verbatim>\<open>for key, val in self._initial_vals\<close>: iterating a
  dictionary yields its keys, and each key, a string, is unpacked into the two targets
  \<open>key\<close> and \<open>val\<close>. Unpacking a string of any length but two raises \<^verbatim>\<open>ValueError\<close>; a
  string of two characters gives its two one-character strings. The body then compares
  \<^verbatim>\<open>getattr(self, key)\<close> with \<open>val\<close>; an attribute that does not exist raises
  \<^verbatim>\<open>AttributeError\<close>.
\<close>

fun is_modified_loop :: "rrset \<Rightarrow> string list \<Rightarrow> py_error + bool" where
  "is_modified_loop self [] = Inr False"
| "is_modified_loop self (item # items) =
     (case item of
        [key, val] \<Rightarrow>
          (case getattr self [key] of
             Inl e \<Rightarrow> Inl e
           | Inr v \<Rightarrow> if py_ne v (PStr [val]) then Inr True
                     else is_modified_loop self items)
      | _ \<Rightarrow> Inl ValueError)"

definition is_modified :: "rrset \<Rightarrow> py_error + bool" where
  "is_modified self = is_modified_loop self (map fst (initial_vals self))"

text \<open>
  Modelled from the spec: the \<^verbatim>\<open>ChangeSet\<close> collaborator (module \<^verbatim>\<open>route53.change_set\<close>,
  imported by the source and not part of it). The specification gives it a constructor
  taking the connection and the hosted zone identifier, and an operation \<^verbatim>\<open>add_change\<close>
  taking an action and a record set, which appends that change.
\<close>

record change_set =
  cs_connection :: "conn_ref option"
  hosted_zone_id :: string
  changes :: "(string \<times> rrset) list"

definition ChangeSet :: "conn_ref option \<Rightarrow> string \<Rightarrow> change_set" where
  "ChangeSet connection' hosted_zone_id' =
     \<lparr> cs_connection = connection', hosted_zone_id = hosted_zone_id', changes = [] \<rparr>"

definition add_change :: "string \<Rightarrow> rrset \<Rightarrow> change_set \<Rightarrow> change_set" where
  "add_change action record_set cset =
     cset\<lparr>changes := changes cset @ [(action, record_set)]\<rparr>"

text \<open>
  \<^verbatim>\<open>delete\<close>. The connection's method \<^verbatim>\<open>_change_resource_record_sets\<close> is outside the
  module and is a parameter: applied to the connection object and the change set, it
  takes the state \<open>net\<close> of everything beyond this module to an outcome (a response, or
  whatever the call raises) and a new state. The method is looked up on
  \<^verbatim>\<open>self.connection\<close> after the change set is built, so a connection that is \<^verbatim>\<open>None\<close> raises
  \<^verbatim>\<open>AttributeError\<close> there. The result carries the outcome, the instance after the call
  and the outer state after the call.
\<close>

definition delete ::
  "(conn_ref \<Rightarrow> change_set \<Rightarrow> 'net \<Rightarrow> 'resp \<times> 'net) \<Rightarrow> rrset \<Rightarrow> 'net \<Rightarrow>
   py_error + ('resp \<times> rrset \<times> 'net)"
where
  "delete change_resource_record_sets self net =
     (let cset = ChangeSet (connection self) (zone_id self);
          cset = add_change ''DELETE'' self cset
      in case connection self of
           None \<Rightarrow> Inl AttributeError
         | Some c \<Rightarrow>
             (case change_resource_record_sets c cset net of
                (resp, net') \<Rightarrow> Inr (resp, self, net')))"

text \<open>\<^verbatim>\<open>save\<close>: the body is \<^verbatim>\<open>pass\<close>, so the call returns \<^verbatim>\<open>None\<close>; the instance and the
  outer state are returned as they came.\<close>

definition save :: "rrset \<Rightarrow> 'net \<Rightarrow> py_error + (pyval \<times> rrset \<times> 'net)" where
  "save self net = Inr (PNone, self, net)"

text \<open>\<^verbatim>\<open>is_alias_record_set\<close>: the override of \<open>AResourceRecordSet\<close> returns
  \<^verbatim>\<open>self.alias_hosted_zone_id or self.alias_dns_name\<close>, every other class inherits
  \<^verbatim>\<open>return False\<close>.\<close>

definition is_alias_record_set :: "rrset \<Rightarrow> pyval" where
  "is_alias_record_set self =
     (if cls self = AResourceRecordSet
      then py_or (of_str (alias_hosted_zone_id self)) (of_str (alias_dns_name self))
      else PBool False)"

section \<open>Facts about the constructors\<close>

lemma ResourceRecordSet_init_keys:
  "map fst (initial_vals (ResourceRecordSet_init c conn z n t rs)) =
     [''connection'', ''zone_id'', ''name'', ''ttl'', ''records'']"
  by (simp add: ResourceRecordSet_init_def)

lemma AResourceRecordSet_init_keys:
  "map fst (initial_vals (AResourceRecordSet_init ahz adn conn z n t rs)) =
     [''connection'', ''zone_id'', ''name'', ''ttl'', ''records'',
      ''alias_hosted_zone_id'', ''alias_dns_name'']"
  by (simp add: AResourceRecordSet_init_def ResourceRecordSet_init_def Let_def)

lemma cls_ResourceRecordSet_init:
  "cls (ResourceRecordSet_init c conn z n t rs) = c"
  by (simp add: ResourceRecordSet_init_def)

lemma cls_AResourceRecordSet_init:
  "cls (AResourceRecordSet_init ahz adn conn z n t rs) = AResourceRecordSet"
  by (simp add: AResourceRecordSet_init_def ResourceRecordSet_init_def Let_def)

section \<open>Modification detection\<close>

text \<open>The first key that the loop meets decides: unpacking it fails unless it has exactly
  two characters.\<close>

lemma is_modified_loop_unpack:
  "length item \<noteq> 2 \<Longrightarrow> is_modified_loop self (item # items) = Inl ValueError"
  by (auto split: list.splits)

lemma is_modified_first_key:
  "map fst (initial_vals self) = item # items \<Longrightarrow> length item \<noteq> 2 \<Longrightarrow>
   is_modified self = Inl ValueError"
  by (simp add: is_modified_def is_modified_loop_unpack del: is_modified_loop.simps)

text \<open>Whatever the order in which the keys come, a non-empty dictionary none of whose
  keys has two characters makes the loop raise.\<close>

lemma is_modified_loop_any_order:
  assumes "keys \<noteq> []" and "\<forall>k \<in> set keys. length k \<noteq> 2"
  shows "is_modified_loop self keys = Inl ValueError"
  using assms
  by (cases keys) (simp_all add: is_modified_loop_unpack del: is_modified_loop.simps)

text \<open>The loop body, were it reached: no data attribute has a one-character name.\<close>

lemma getattr_one_char: "getattr self [ch] = Inl AttributeError"
  by (simp add: getattr_def)

text \<open>Every instance that either constructor returns raises, whatever the arguments.\<close>

lemma is_modified_ResourceRecordSet_init:
  "is_modified (ResourceRecordSet_init c conn z n t rs) = Inl ValueError"
  by (rule is_modified_first_key [OF ResourceRecordSet_init_keys]) simp

lemma is_modified_AResourceRecordSet_init:
  "is_modified (AResourceRecordSet_init ahz adn conn z n t rs) = Inl ValueError"
  by (rule is_modified_first_key [OF AResourceRecordSet_init_keys]) simp

text \<open>Assigning to fields does not change that: the outcome depends on the keys of the
  snapshot alone.\<close>

lemma is_modified_same_snapshot_keys:
  assumes same: "map fst (initial_vals self') = map fst (initial_vals self)"
    and nonempty: "initial_vals self \<noteq> []"
    and first: "length (fst (hd (initial_vals self))) \<noteq> 2"
  shows "is_modified self' = Inl ValueError"
proof -
  from nonempty obtain kv kvs where kvs: "initial_vals self = kv # kvs"
    by (cases "initial_vals self") auto
  with same have "map fst (initial_vals self') = fst kv # map fst kvs"
    by simp
  moreover from kvs first have "length (fst kv) \<noteq> 2"
    by simp
  ultimately show ?thesis
    by (rule is_modified_first_key)
qed

text \<open>
  Claim C1 says that \<^verbatim>\<open>is_modified\<close>, called right after construction, returns \<^verbatim>\<open>False\<close>
  without raising. The code does not return: for the CNAME record set of zone
  \<^verbatim>\<open>Z123\<close> named \<^verbatim>\<open>www.example.com\<close>, with a ttl of 300 and one record, the first key
  of the snapshot, \<^verbatim>\<open>connection\<close>, cannot be unpacked into two targets and the call raises
  \<^verbatim>\<open>ValueError\<close>.
\<close>

theorem is_modified_fresh_raises_ValueError:
  "is_modified
     (ResourceRecordSet_init CNAMEResourceRecordSet (Some 1) ''Z123'' ''www.example.com''
        (Some 300) [''target.example.com'']) = Inl ValueError"
  by (simp add: is_modified_def ResourceRecordSet_init_def)

text \<open>
  Claim C2 says that \<^verbatim>\<open>is_modified\<close> returns \<^verbatim>\<open>True\<close> once a field captured in the snapshot
  has been given another value. The code raises \<^verbatim>\<open>ValueError\<close> there as well: the same
  record set, after \<^verbatim>\<open>name\<close> has been set to \<^verbatim>\<open>other.example.com\<close>, still fails on the
  first key of its snapshot, before any field is compared.
\<close>

theorem is_modified_after_rename_raises_ValueError:
  "is_modified
     ((ResourceRecordSet_init CNAMEResourceRecordSet (Some 1) ''Z123'' ''www.example.com''
         (Some 300) [''target.example.com''])\<lparr>name := ''other.example.com''\<rparr>) =
   Inl ValueError"
  by (simp add: is_modified_def ResourceRecordSet_init_def)

section \<open>Deletion\<close>

text \<open>
  Claim C3: for a record set that holds a connection, \<^verbatim>\<open>delete\<close> builds a change set for
  the record set's own zone, puts exactly one change into it, the action \<^verbatim>\<open>DELETE\<close> on
  this record set, hands that change set to the connection's
  \<^verbatim>\<open>_change_resource_record_sets\<close>, returns what that call returns, and leaves the
  record set, snapshot included, as it was; the outer state is the one the connection's
  call produced.
\<close>

theorem delete_submits_single_DELETE:
  assumes "connection self = Some c"
  shows "delete change_resource_record_sets self net =
           Inr (fst (change_resource_record_sets c
                       \<lparr>cs_connection = Some c, hosted_zone_id = zone_id self,
                        changes = [(''DELETE'', self)]\<rparr> net),
                self,
                snd (change_resource_record_sets c
                       \<lparr>cs_connection = Some c, hosted_zone_id = zone_id self,
                        changes = [(''DELETE'', self)]\<rparr> net))"
  using assms
  by (simp add: delete_def ChangeSet_def add_change_def split: prod.splits)

text \<open>The record set of zone \<^verbatim>\<open>Z123\<close> named \<^verbatim>\<open>www.example.com\<close>, deleted through a
  connection that answers \<^verbatim>\<open>PENDING\<close> and logs the change sets it is given.\<close>

theorem delete_submits_single_DELETE_witness:
  "connection (ResourceRecordSet_init CNAMEResourceRecordSet (Some 1) ''Z123''
       ''www.example.com'' (Some 300) [''target.example.com'']) = Some 1 \<and>
   delete (\<lambda>c cset log. (''PENDING'', log @ [(c, cset)]))
     (ResourceRecordSet_init CNAMEResourceRecordSet (Some 1) ''Z123''
        ''www.example.com'' (Some 300) [''target.example.com'']) [] =
   Inr (''PENDING'',
        ResourceRecordSet_init CNAMEResourceRecordSet (Some 1) ''Z123''
          ''www.example.com'' (Some 300) [''target.example.com''],
        [(1, \<lparr>cs_connection = Some 1, hosted_zone_id = ''Z123'',
               changes = [(''DELETE'',
                 ResourceRecordSet_init CNAMEResourceRecordSet (Some 1) ''Z123''
                   ''www.example.com'' (Some 300) [''target.example.com''])]\<rparr>)])"
proof -
  have conn: "connection (ResourceRecordSet_init CNAMEResourceRecordSet (Some 1) ''Z123''
       ''www.example.com'' (Some 300) [''target.example.com'']) = Some 1"
    by (simp add: ResourceRecordSet_init_def)
  show ?thesis
    using delete_submits_single_DELETE
            [OF conn, of "\<lambda>c cset log. (''PENDING'', log @ [(c, cset)])" "[]"]
    by (simp add: ResourceRecordSet_init_def)
qed

text \<open>Without a connection there is no method to call.\<close>

lemma delete_without_connection:
  "connection self = None \<Longrightarrow> delete change_resource_record_sets self net = Inl AttributeError"
  by (simp add: delete_def)

section \<open>Saving\<close>

text \<open>
  Claim C8: \<^verbatim>\<open>save\<close> does no work. For every instance and every outer state the call
  raises nothing, returns \<^verbatim>\<open>None\<close>, and gives back the instance (all fields, the snapshot
  among them) and the outer state unchanged; it takes no collaborator to call.
\<close>

theorem save_does_nothing:
  "save self net = Inr (PNone, self, net)"
  by (simp add: save_def)

section \<open>Alias records\<close>

lemma is_alias_record_set_A_value:
  "is_alias_record_set (AResourceRecordSet_init ahz adn conn z n t rs) =
     py_or (of_str ahz) (of_str adn)"
  by (simp add: is_alias_record_set_def AResourceRecordSet_init_def
        ResourceRecordSet_init_def Let_def)

lemma of_str_not_bool: "of_str x \<noteq> PBool b"
  by (cases x) simp_all

lemma truthy_of_str: "truthy (of_str x) = (x \<noteq> None \<and> x \<noteq> Some [])"
  by (cases x) simp_all

text \<open>The result of the override is one of the two alias fields, never a boolean; its
  truth value is the one the docstring describes.\<close>

lemma is_alias_record_set_A_never_bool:
  "is_alias_record_set (AResourceRecordSet_init ahz adn conn z n t rs) \<noteq> PBool b"
  by (simp add: is_alias_record_set_A_value py_or_def of_str_not_bool)

lemma is_alias_record_set_A_truthy:
  "truthy (is_alias_record_set (AResourceRecordSet_init ahz adn conn z n t rs)) =
     ((ahz \<noteq> None \<and> ahz \<noteq> Some []) \<or> (adn \<noteq> None \<and> adn \<noteq> Some []))"
  by (auto simp add: is_alias_record_set_A_value py_or_def truthy_of_str)

text \<open>
  Claim C4 says that on an A record \<^verbatim>\<open>is_alias_record_set\<close> returns the boolean \<^verbatim>\<open>True\<close>
  when one of the alias fields is non-empty and the boolean \<^verbatim>\<open>False\<close> when both are
  absent. The code returns the operand that \<^verbatim>\<open>or\<close> selects: for the alias record with
  \<^verbatim>\<open>alias_hosted_zone_id = 'Z2ELB'\<close> the string \<^verbatim>\<open>'Z2ELB'\<close>, and for the plain A record
  with neither alias field \<^verbatim>\<open>None\<close>.
\<close>

theorem is_alias_record_set_returns_operand:
  "is_alias_record_set
     (AResourceRecordSet_init (Some ''Z2ELB'') (Some ''elb.example.com'')
        (Some 1) ''Z123'' ''www.example.com'' None []) = PStr ''Z2ELB'' \<and>
   is_alias_record_set
     (AResourceRecordSet_init None None
        (Some 1) ''Z123'' ''www.example.com'' (Some 300) [''192.0.2.1'']) = PNone"
  by (simp add: is_alias_record_set_def AResourceRecordSet_init_def
        ResourceRecordSet_init_def py_or_def)

text \<open>An instance of any other class answers \<^verbatim>\<open>False\<close>, whatever its fields hold.\<close>

lemma is_alias_record_set_other_class:
  "cls self \<noteq> AResourceRecordSet \<Longrightarrow> is_alias_record_set self = PBool False"
  by (simp add: is_alias_record_set_def)

text \<open>
  Claim C5: on a freshly constructed instance of a class other than
  \<open>AResourceRecordSet\<close>, \<^verbatim>\<open>is_alias_record_set\<close> returns \<^verbatim>\<open>False\<close>, whatever the
  constructor's arguments were.
\<close>

theorem is_alias_record_set_non_A:
  assumes "c \<noteq> AResourceRecordSet"
  shows "is_alias_record_set (ResourceRecordSet_init c conn z n t rs) = PBool False"
  using assms by (simp add: is_alias_record_set_def ResourceRecordSet_init_def)

theorem is_alias_record_set_non_A_witness:
  "CNAMEResourceRecordSet \<noteq> AResourceRecordSet \<and>
   is_alias_record_set
     (ResourceRecordSet_init CNAMEResourceRecordSet (Some 1) ''Z123'' ''www.example.com''
        (Some 300) [''target.example.com'']) = PBool False"
  using is_alias_record_set_non_A [of CNAMEResourceRecordSet "Some 1" "''Z123''"
      "''www.example.com''" "Some 300" "[''target.example.com'']"]
  by simp

section \<open>The constructors\<close>

text \<open>The stored ttl, for every argument: zero and \<^verbatim>\<open>None\<close> give \<^verbatim>\<open>None\<close>, every other
  integer, negative ones too, is kept.\<close>

lemma ttl_ResourceRecordSet_init:
  "ttl (ResourceRecordSet_init c conn z n t rs) = (if t = Some 0 then None else t)"
  by (cases t) (simp_all add: ResourceRecordSet_init_def)

lemma ttl_AResourceRecordSet_init:
  "ttl (AResourceRecordSet_init ahz adn conn z n t rs) = (if t = Some 0 then None else t)"
  by (cases t) (simp_all add: AResourceRecordSet_init_def ResourceRecordSet_init_def Let_def)

text \<open>
  Claim C6: a ttl argument of 0 or \<^verbatim>\<open>None\<close> is stored as \<^verbatim>\<open>None\<close>, and a positive integer
  is stored as that integer, by the base constructor and by the constructor of A records.
\<close>

theorem ttl_normalised:
  assumes "0 < k"
  shows "ttl (ResourceRecordSet_init c conn z n (Some 0) rs) = None \<and>
         ttl (ResourceRecordSet_init c conn z n None rs) = None \<and>
         ttl (ResourceRecordSet_init c conn z n (Some k) rs) = Some k \<and>
         ttl (AResourceRecordSet_init ahz adn conn z n (Some 0) rs) = None \<and>
         ttl (AResourceRecordSet_init ahz adn conn z n None rs) = None \<and>
         ttl (AResourceRecordSet_init ahz adn conn z n (Some k) rs) = Some k"
  using assms
  by (simp add: ResourceRecordSet_init_def AResourceRecordSet_init_def Let_def)

theorem ttl_normalised_witness:
  "(0::int) < 300 \<and>
   ttl (ResourceRecordSet_init CNAMEResourceRecordSet (Some 1) ''Z123'' ''www.example.com''
          (Some 0) [''target.example.com'']) = None \<and>
   ttl (ResourceRecordSet_init CNAMEResourceRecordSet (Some 1) ''Z123'' ''www.example.com''
          None [''target.example.com'']) = None \<and>
   ttl (ResourceRecordSet_init CNAMEResourceRecordSet (Some 1) ''Z123'' ''www.example.com''
          (Some 300) [''target.example.com'']) = Some 300"
  using ttl_normalised [of 300 CNAMEResourceRecordSet "Some 1" "''Z123''"
      "''www.example.com''" "[''target.example.com'']"]
  by simp

text \<open>
  Claim C7 says that a call with a null connection, an empty zone identifier or an empty
  name does not produce an instance. The constructor checks nothing: called with
  \<^verbatim>\<open>None\<close> for the connection and the empty string (the empty list of characters) for
  both the zone identifier and the name, it returns the instance that holds them.
\<close>

theorem constructor_accepts_null_and_empty:
  "ResourceRecordSet_init CNAMEResourceRecordSet None [] [] (Some 300)
       [''target.example.com''] =
     \<lparr> cls = CNAMEResourceRecordSet, connection = None, zone_id = [], name = [],
       ttl = Some 300, records = [''target.example.com''],
       initial_vals =
         [(''connection'', PNone), (''zone_id'', PStr []), (''name'', PStr []),
          (''ttl'', PInt 300), (''records'', PList [''target.example.com''])],
       alias_hosted_zone_id = None, alias_dns_name = None \<rparr>"
  by (simp add: ResourceRecordSet_init_def)

text \<open>
  Claim C7, as the code has it: both constructors accept every connection (\<^verbatim>\<open>None\<close>
  included), every zone identifier and every name (the empty string included), and the
  instance they return holds these three arguments as they were given.
\<close>

theorem constructor_stores_arguments_unchecked:
  "connection (ResourceRecordSet_init c conn z n t rs) = conn \<and>
   zone_id (ResourceRecordSet_init c conn z n t rs) = z \<and>
   name (ResourceRecordSet_init c conn z n t rs) = n \<and>
   connection (AResourceRecordSet_init ahz adn conn z n t rs) = conn \<and>
   zone_id (AResourceRecordSet_init ahz adn conn z n t rs) = z \<and>
   name (AResourceRecordSet_init ahz adn conn z n t rs) = n"
  by (simp add: ResourceRecordSet_init_def AResourceRecordSet_init_def Let_def)

text \<open>
  Claim C10: the snapshot keeps the ttl argument as it was passed, while the field holds
  the normalised value. The only argument that normalisation changes is 0; for it the
  field reads \<^verbatim>\<open>None\<close>, the snapshot's entry is 0, and the two are unequal, so the
  snapshot of a fresh instance does not match its fields.
\<close>

theorem snapshot_keeps_raw_ttl:
  "map_of (initial_vals (ResourceRecordSet_init c conn z n t rs)) ''ttl'' = Some (of_int t) \<and>
   map_of (initial_vals (AResourceRecordSet_init ahz adn conn z n t rs)) ''ttl'' =
     Some (of_int t) \<and>
   getattr (ResourceRecordSet_init c conn z n (Some 0) rs) ''ttl'' = Inr PNone \<and>
   getattr (AResourceRecordSet_init ahz adn conn z n (Some 0) rs) ''ttl'' = Inr PNone \<and>
   py_ne PNone (of_int (Some 0)) \<and>
   (ttl (ResourceRecordSet_init c conn z n t rs) \<noteq> t) = (t = Some 0) \<and>
   (ttl (AResourceRecordSet_init ahz adn conn z n t rs) \<noteq> t) = (t = Some 0)"
  by (cases t) (simp_all add: ResourceRecordSet_init_def AResourceRecordSet_init_def Let_def
        getattr_def py_ne_def)

section \<open>String rendering\<close>

text \<open>
  Claim C9: every instance renders as \<^verbatim>\<open><\<close>, the name of its class, a colon and a space,
  its \<^verbatim>\<open>name\<close> field, and \<^verbatim>\<open>>\<close>. The name of the class is the record type of the class
  (nothing for the base class) followed by \<^verbatim>\<open>ResourceRecordSet\<close>; it is spelled out below
  for a fresh instance of each of the ten variants and of the base class, and for an
  instance whose \<^verbatim>\<open>name\<close> has been reassigned. A CNAME record set named
  \<^verbatim>\<open>www.example.com\<close> renders as \<^verbatim>\<open><CNAMEResourceRecordSet: www.example.com>\<close>.
\<close>

theorem str_rrset_renders_class_and_name:
  "str_rrset self = ''<'' @ class_name (cls self) @ '': '' @ name self @ ''>'' \<and>
   str_rrset self =
     ''<'' @ (case rrset_type (cls self) of None \<Rightarrow> [] | Some ty \<Rightarrow> ty) @
     ''ResourceRecordSet: '' @ name self @ ''>'' \<and>
   str_rrset (AResourceRecordSet_init ahz adn conn z n t rs) =
     ''<AResourceRecordSet: '' @ n @ ''>'' \<and>
   str_rrset (ResourceRecordSet_init AAAAResourceRecordSet conn z n t rs) =
     ''<AAAAResourceRecordSet: '' @ n @ ''>'' \<and>
   str_rrset (ResourceRecordSet_init CNAMEResourceRecordSet conn z n t rs) =
     ''<CNAMEResourceRecordSet: '' @ n @ ''>'' \<and>
   str_rrset (ResourceRecordSet_init MXResourceRecordSet conn z n t rs) =
     ''<MXResourceRecordSet: '' @ n @ ''>'' \<and>
   str_rrset (ResourceRecordSet_init NSResourceRecordSet conn z n t rs) =
     ''<NSResourceRecordSet: '' @ n @ ''>'' \<and>
   str_rrset (ResourceRecordSet_init PTRResourceRecordSet conn z n t rs) =
     ''<PTRResourceRecordSet: '' @ n @ ''>'' \<and>
   str_rrset (ResourceRecordSet_init SOAResourceRecordSet conn z n t rs) =
     ''<SOAResourceRecordSet: '' @ n @ ''>'' \<and>
   str_rrset (ResourceRecordSet_init SPFResourceRecordSet conn z n t rs) =
     ''<SPFResourceRecordSet: '' @ n @ ''>'' \<and>
   str_rrset (ResourceRecordSet_init SRVResourceRecordSet conn z n t rs) =
     ''<SRVResourceRecordSet: '' @ n @ ''>'' \<and>
   str_rrset (ResourceRecordSet_init TXTResourceRecordSet conn z n t rs) =
     ''<TXTResourceRecordSet: '' @ n @ ''>'' \<and>
   str_rrset (ResourceRecordSet_init ResourceRecordSet conn z n t rs) =
     ''<ResourceRecordSet: '' @ n @ ''>'' \<and>
   str_rrset ((ResourceRecordSet_init MXResourceRecordSet conn z n t rs)\<lparr>name := n'\<rparr>) =
     ''<MXResourceRecordSet: '' @ n' @ ''>'' \<and>
   str_rrset (ResourceRecordSet_init CNAMEResourceRecordSet conn z ''www.example.com'' t rs) =
     ''<CNAMEResourceRecordSet: www.example.com>''"
proof -
  have shape: "str_rrset self = ''<'' @ class_name (cls self) @ '': '' @ name self @ ''>''"
    by (simp add: str_rrset_def)
  have general: "str_rrset self =
     ''<'' @ (case rrset_type (cls self) of None \<Rightarrow> [] | Some ty \<Rightarrow> ty) @
     ''ResourceRecordSet: '' @ name self @ ''>''"
    by (cases "cls self") (simp_all add: str_rrset_def)
  have fresh: "str_rrset (ResourceRecordSet_init c conn z n t rs) =
      ''<'' @ class_name c @ '': '' @ n @ ''>''" for c n
    by (simp add: str_rrset_def ResourceRecordSet_init_def)
  have freshA: "str_rrset (AResourceRecordSet_init ahz adn conn z n t rs) =
      ''<AResourceRecordSet: '' @ n @ ''>''"
    by (simp add: str_rrset_def AResourceRecordSet_init_def ResourceRecordSet_init_def Let_def)
  have renamed:
    "str_rrset ((ResourceRecordSet_init MXResourceRecordSet conn z n t rs)\<lparr>name := n'\<rparr>) =
       ''<MXResourceRecordSet: '' @ n' @ ''>''"
    by (simp add: str_rrset_def ResourceRecordSet_init_def)
  have example: "str_rrset
      (ResourceRecordSet_init CNAMEResourceRecordSet conn z ''www.example.com'' t rs) =
     ''<CNAMEResourceRecordSet: www.example.com>''"
    by (simp add: fresh)
  show ?thesis
    by (intro conjI shape general freshA renamed example) (simp_all add: fresh)
qed

end
